theory Spec2Isabelle
  imports Complex_Main
begin

section \<open>JavaScript values used by the handlers\<close>

text \<open>
  The integers the handlers read with \<open>parseInt\<close> and the numbers stored in documents
  are modelled as an exact rational or \<open>NaN\<close>; the page arithmetic on them is exact
  (doubles are exact on integers below \<open>2 ^ 53\<close>). Signed zero is outside the model.
\<close>

datatype jsnum = NaN | Num rat

definition js_mul :: "jsnum \<Rightarrow> jsnum \<Rightarrow> jsnum" where
  "js_mul a b = (case a of NaN \<Rightarrow> NaN | Num x \<Rightarrow> (case b of NaN \<Rightarrow> NaN | Num y \<Rightarrow> Num (x * y)))"

definition js_sub :: "jsnum \<Rightarrow> jsnum \<Rightarrow> jsnum" where
  "js_sub a b = (case a of NaN \<Rightarrow> NaN | Num x \<Rightarrow> (case b of NaN \<Rightarrow> NaN | Num y \<Rightarrow> Num (x - y)))"

text \<open>
  The price bounds are computed in double precision: \<open>parseFloat\<close> gives the double
  nearest to the decimal text, and the product with 10000000 is rounded to the nearest
  double again. A double is \<open>NaN\<close>, an infinity, or a rational of the form
  \<open>n * 2 ^ q\<close> with \<open>n < 2 ^ 53\<close> and \<open>q\<close> from \<open>-1074\<close> to \<open>971\<close>.
\<close>

datatype jsfloat = FNaN | Fin rat | PInf | NInf

definition pow2 :: "int \<Rightarrow> rat" where
  "pow2 e = (if 0 \<le> e then 2 ^ nat e else 1 / 2 ^ nat (- e))"

function bit_length :: "int \<Rightarrow> int" where
  "bit_length n = (if n \<le> 0 then 0 else 1 + bit_length (n div 2))"
  by pat_completeness auto
termination
  by (relation "measure nat") auto

text \<open>For \<open>a > 0\<close>, the \<open>e\<close> with \<open>2 ^ e \<le> a < 2 ^ (e + 1)\<close>.\<close>

definition floor_log2 :: "rat \<Rightarrow> int" where
  "floor_log2 a =
     (let e = bit_length (fst (quotient_of a)) - bit_length (snd (quotient_of a))
      in if pow2 e \<le> a then e else e - 1)"

definition round_half_even :: "rat \<Rightarrow> int" where
  "round_half_even m =
     (let n = \<lfloor>m\<rfloor>; f = m - of_int n
      in if f < 1 / 2 then n else if 1 / 2 < f then n + 1 else if even n then n else n + 1)"

text \<open>
  Rounding to the nearest double, ties to even: 53 significant bits, the exponent not
  below that of the subnormals, and overflow to an infinity.
\<close>

definition round_double :: "rat \<Rightarrow> jsfloat" where
  "round_double x =
     (if x = 0 then Fin 0
      else (let a = \<bar>x\<bar>;
                q = max (floor_log2 a - 52) (- 1074);
                n = round_half_even (a / pow2 q)
            in if 1024 < q + bit_length n then (if 0 < x then PInf else NInf)
               else Fin (sgn x * of_int n * pow2 q)))"

fun fl_neg :: "jsfloat \<Rightarrow> jsfloat" where
  "fl_neg PInf = NInf"
| "fl_neg NInf = PInf"
| "fl_neg (Fin x) = Fin (- x)"
| "fl_neg FNaN = FNaN"

fun fl_mul :: "jsfloat \<Rightarrow> jsfloat \<Rightarrow> jsfloat" where
  "fl_mul FNaN b = FNaN"
| "fl_mul a FNaN = FNaN"
| "fl_mul (Fin x) (Fin y) = round_double (x * y)"
| "fl_mul (Fin x) b = (if x = 0 then FNaN else if 0 < x then b else fl_neg b)"
| "fl_mul a (Fin y) = (if y = 0 then FNaN else if 0 < y then a else fl_neg a)"
| "fl_mul a b = (if a = b then PInf else NInf)"

fun index_of :: "char \<Rightarrow> string \<Rightarrow> int" where
  "index_of c [] = 0"
| "index_of c (x # xs) = (if c = x then 0 else 1 + index_of c xs)"

text \<open>
  White space, within ASCII: tab, line feed, vertical tab, form feed, carriage return
  and space.
\<close>

definition isWhiteSpace :: "char \<Rightarrow> bool" where
  "isWhiteSpace c = (c \<in> set [CHR 0x09, CHR 0x0A, CHR 0x0B, CHR 0x0C, CHR 0x0D, CHR 0x20])"

definition isDigit :: "char \<Rightarrow> bool" where
  "isDigit c = (c \<in> set ''0123456789'')"

definition digitVal :: "char \<Rightarrow> int" where
  "digitVal c = index_of c ''0123456789''"

definition digitsVal :: "string \<Rightarrow> int" where
  "digitsVal ds = foldl (\<lambda>a c. 10 * a + digitVal c) 0 ds"

definition isHexDigit :: "char \<Rightarrow> bool" where
  "isHexDigit c = (c \<in> set ''0123456789abcdefABCDEF'')"

definition hexVal :: "char \<Rightarrow> int" where
  "hexVal c = (if c \<in> set ''0123456789abcdef'' then index_of c ''0123456789abcdef''
               else index_of c ''0123456789ABCDEF'')"

definition hexDigitsVal :: "string \<Rightarrow> int" where
  "hexDigitsVal ds = foldl (\<lambda>a c. 16 * a + hexVal c) 0 ds"

text \<open>An optional leading sign: the factor it stands for and the rest of the text.\<close>

definition signOf :: "string \<Rightarrow> rat \<times> string" where
  "signOf s = (case s of
       [] \<Rightarrow> (1, [])
     | c # r \<Rightarrow> if c = CHR ''-'' then (- 1, r) else if c = CHR ''+'' then (1, r) else (1, s))"

definition hexPrefix :: "string \<Rightarrow> bool" where
  "hexPrefix s = (take 2 s = ''0x'' \<or> take 2 s = ''0X'')"

text \<open>
  \<open>parseInt(s)\<close> with no radix: leading white space is skipped, a sign is read, a
  \<open>0x\<close> prefix switches to base 16, and the longest run of digits is the value; no
  digit at all gives \<open>NaN\<close>.
\<close>

definition parseInt :: "string \<Rightarrow> jsnum" where
  "parseInt s =
     (let t = dropWhile isWhiteSpace s;
          sg = fst (signOf t);
          u = snd (signOf t)
      in if hexPrefix u
         then (let ds = takeWhile isHexDigit (drop 2 u)
               in if ds = [] then NaN else Num (sg * of_int (hexDigitsVal ds)))
         else (let ds = takeWhile isDigit u
               in if ds = [] then NaN else Num (sg * of_int (digitsVal ds))))"

definition expPart :: "string \<Rightarrow> rat" where
  "expPart r = (case r of
       [] \<Rightarrow> 1
     | c # r' \<Rightarrow>
         if c = CHR ''e'' \<or> c = CHR ''E''
         then (let es = fst (signOf r');
                   ds = takeWhile isDigit (snd (signOf r'))
               in if ds = [] then 1
                  else if es < 0 then 1 / 10 ^ nat (digitsVal ds) else 10 ^ nat (digitsVal ds))
         else 1)"

text \<open>
  \<open>parseFloat(s)\<close>: the longest prefix that is a decimal literal (sign, then
  \<open>Infinity\<close> or integer digits, fraction and exponent), as the double nearest to its
  value; \<open>NaN\<close> when there is no digit before the exponent.
\<close>

definition parseFloat :: "string \<Rightarrow> jsfloat" where
  "parseFloat s =
     (let t = dropWhile isWhiteSpace s;
          sg = fst (signOf t);
          u = snd (signOf t);
          ip = takeWhile isDigit u;
          r1 = dropWhile isDigit u;
          dot = (r1 \<noteq> [] \<and> hd r1 = CHR ''.'');
          fp = (if dot then takeWhile isDigit (tl r1) else []);
          r2 = (if dot then dropWhile isDigit (tl r1) else r1)
      in if take 8 u = ''Infinity'' then (if sg < 0 then NInf else PInf)
         else if ip = [] \<and> fp = [] then FNaN
         else round_double
                (sg * (of_int (digitsVal ip) + of_int (digitsVal fp) / 10 ^ length fp) * expPart r2))"

text \<open>
  A query-string parameter is absent or a string, as the handler reads it; a string is
  truthy when it is not empty. \<open>amenities\<close> may also arrive as an array, which is
  always truthy.
\<close>

definition truthy :: "string option \<Rightarrow> bool" where
  "truthy v = (case v of None \<Rightarrow> False | Some s \<Rightarrow> s \<noteq> [])"

datatype qval = QStr string | QArr "string list"

definition qtruthy :: "qval option \<Rightarrow> bool" where
  "qtruthy v = (case v of None \<Rightarrow> False | Some (QStr s) \<Rightarrow> s \<noteq> [] | Some (QArr xs) \<Rightarrow> True)"

section \<open>Documents\<close>

type_synonym oid = nat

text \<open>A field of schema type Mixed or Object: a string, a number, or any other value.\<close>

datatype mixed = MStr string | MNum jsnum | MObj

text \<open>The \<open>owner\<close> field: an ObjectId reference or an embedded object.\<close>

datatype owner_ref = OwnerId oid | OwnerObj

record property =
  pid :: oid
  title :: string
  description :: "string option"
  location :: "mixed option"
  city :: "string option"
  propertyType :: "string option"
  price :: rat
  bedrooms :: "mixed option"
  furnishing :: "string option"
  possession :: "string option"
  area :: "rat option"
  amenities :: "string list"
  owner :: "owner_ref option"
  status :: string
  isFeatured :: "bool option"
  createdAt :: int

record user =
  uid :: oid
  googleId :: "string option"
  name :: string
  email :: string
  password :: "string option"
  avatar :: "string option"
  provider :: string
  role :: string
  lastLogin :: int

record favorite =
  fav_user :: oid
  fav_property :: oid
  fav_notes :: "string option"
  addedAt :: int

record contact =
  c_name :: "string option"
  c_email :: "string option"
  c_phone :: "string option"
  c_subject :: "string option"
  c_message :: "string option"
  c_propertyInterest :: "string option"

record store =
  users :: "user list"
  properties :: "property list"
  favorites :: "favorite list"
  contacts :: "contact list"

text \<open>
  A handler's answer: \<open>Fail s m\<close> is \<open>res.status(s).json({success: false, message: m})\<close>,
  \<open>Done s b\<close> is a success envelope with status \<open>s\<close> and body \<open>b\<close>. Where the source
  sends the text of the caught error, the model sends the name of that expression.
\<close>

datatype 'a reply = Fail nat string | Done nat 'a

fun http :: "'a reply \<Rightarrow> nat" where
  "http (Fail s m) = s"
| "http (Done s b) = s"

section \<open>The document store as the handlers use it\<close>

text \<open>
  The regular-expression engine of the store is a parameter: a pattern compiles to a
  matcher, or is rejected (\<open>None\<close>). The handlers always ask for option \<open>i\<close>, so the
  matcher stands for the case-insensitive one.
\<close>

type_synonym regex_engine = "string \<Rightarrow> (string \<Rightarrow> bool) option"

definition regex_test :: "regex_engine \<Rightarrow> string \<Rightarrow> string \<Rightarrow> bool" where
  "regex_test rx pat txt = (case rx pat of None \<Rightarrow> False | Some m \<Rightarrow> m txt)"

definition opt_regex :: "regex_engine \<Rightarrow> string \<Rightarrow> string option \<Rightarrow> bool" where
  "opt_regex rx pat v = (case v of None \<Rightarrow> False | Some txt \<Rightarrow> regex_test rx pat txt)"

definition mixed_regex :: "regex_engine \<Rightarrow> string \<Rightarrow> mixed option \<Rightarrow> bool" where
  "mixed_regex rx pat v = (case v of Some (MStr txt) \<Rightarrow> regex_test rx pat txt | _ \<Rightarrow> False)"

text \<open>
  \<open>$gte\<close> and \<open>$lte\<close> of the store on numbers (document value first): \<open>NaN\<close> compares
  equal to \<open>NaN\<close> and to nothing else.
\<close>

fun num_gte :: "jsnum \<Rightarrow> jsnum \<Rightarrow> bool" where
  "num_gte (Num a) (Num b) = (b \<le> a)"
| "num_gte NaN NaN = True"
| "num_gte _ _ = False"

fun num_lte :: "jsnum \<Rightarrow> jsnum \<Rightarrow> bool" where
  "num_lte (Num a) (Num b) = (a \<le> b)"
| "num_lte NaN NaN = True"
| "num_lte _ _ = False"

definition opt_num_gte :: "rat option \<Rightarrow> jsnum \<Rightarrow> bool" where
  "opt_num_gte v b = (case v of None \<Rightarrow> False | Some a \<Rightarrow> num_gte (Num a) b)"

definition opt_num_lte :: "rat option \<Rightarrow> jsnum \<Rightarrow> bool" where
  "opt_num_lte v b = (case v of None \<Rightarrow> False | Some a \<Rightarrow> num_lte (Num a) b)"

text \<open>
  A price against a bound in double precision: every price is at least minus infinity
  and at most plus infinity, and nothing compares with \<open>NaN\<close>.
\<close>

fun fl_gte :: "rat \<Rightarrow> jsfloat \<Rightarrow> bool" where
  "fl_gte a (Fin b) = (b \<le> a)"
| "fl_gte a NInf = True"
| "fl_gte a b = False"

fun fl_lte :: "rat \<Rightarrow> jsfloat \<Rightarrow> bool" where
  "fl_lte a (Fin b) = (a \<le> b)"
| "fl_lte a PInf = True"
| "fl_lte a b = False"

definition mixed_gte :: "mixed option \<Rightarrow> jsnum \<Rightarrow> bool" where
  "mixed_gte v b = (case v of Some (MNum a) \<Rightarrow> num_gte a b | _ \<Rightarrow> False)"

text \<open>
  The filter object the handlers build (\<open>query\<close> in the source): one optional entry
  per key the code can set.
\<close>

record filter_obj =
  flt_status :: string
  flt_isFeatured :: "bool option"
  flt_or :: "string option"
  flt_city :: "string option"
  flt_propertyType :: "string option"
  flt_price_gte :: "jsfloat option"
  flt_price_lte :: "jsfloat option"
  flt_bedrooms_gte :: "jsnum option"
  flt_furnishing :: "string option"
  flt_possession :: "string option"
  flt_area_gte :: "jsnum option"
  flt_area_lte :: "jsnum option"
  flt_amenities_in :: "string list option"

definition on_opt :: "'a option \<Rightarrow> ('a \<Rightarrow> bool) \<Rightarrow> bool" where
  "on_opt v P = (case v of None \<Rightarrow> True | Some x \<Rightarrow> P x)"

text \<open>A document matches a filter object when it matches every entry that is set.\<close>

definition matches :: "regex_engine \<Rightarrow> filter_obj \<Rightarrow> property \<Rightarrow> bool" where
  "matches rx f p =
     (status p = flt_status f
      \<and> on_opt (flt_isFeatured f) (\<lambda>b. isFeatured p = Some b)
      \<and> on_opt (flt_or f) (\<lambda>s. regex_test rx s (title p) \<or> opt_regex rx s (description p)
                                  \<or> mixed_regex rx s (location p))
      \<and> on_opt (flt_city f) (\<lambda>s. opt_regex rx s (city p))
      \<and> on_opt (flt_propertyType f) (\<lambda>s. propertyType p = Some s)
      \<and> on_opt (flt_price_gte f) (\<lambda>b. fl_gte (price p) b)
      \<and> on_opt (flt_price_lte f) (\<lambda>b. fl_lte (price p) b)
      \<and> on_opt (flt_bedrooms_gte f) (\<lambda>b. mixed_gte (bedrooms p) b)
      \<and> on_opt (flt_furnishing f) (\<lambda>s. furnishing p = Some s)
      \<and> on_opt (flt_possession f) (\<lambda>s. possession p = Some s)
      \<and> on_opt (flt_area_gte f) (\<lambda>b. opt_num_gte (area p) b)
      \<and> on_opt (flt_area_lte f) (\<lambda>b. opt_num_lte (area p) b)
      \<and> on_opt (flt_amenities_in f) (\<lambda>xs. list_ex (\<lambda>a. a \<in> set xs) (amenities p)))"

datatype db_error = CastError | ValidationError | DuplicateKey | MongoError | TypeError

text \<open>
  Query casting: \<open>price\<close> and \<open>area\<close> are schema Numbers, and casting \<open>NaN\<close> to a
  Number fails (an infinity is accepted); \<open>bedrooms\<close> is Mixed and is not cast. A pattern the engine rejects
  fails the query.
\<close>

definition cast_filter :: "regex_engine \<Rightarrow> filter_obj \<Rightarrow> db_error option" where
  "cast_filter rx f =
     (if flt_price_gte f = Some FNaN \<or> flt_price_lte f = Some FNaN
         \<or> flt_area_gte f = Some NaN \<or> flt_area_lte f = Some NaN then Some CastError
      else if (case flt_or f of None \<Rightarrow> False | Some s \<Rightarrow> rx s = None)
         \<or> (case flt_city f of None \<Rightarrow> False | Some s \<Rightarrow> rx s = None) then Some MongoError
      else None)"

text \<open>Sort keys in the store's order of types: null, then numbers, then strings.\<close>

datatype bson = BNull | BNum jsnum | BStr string | BOther

fun bson_rank :: "bson \<Rightarrow> nat" where
  "bson_rank BNull = 0"
| "bson_rank (BNum _) = 1"
| "bson_rank (BStr _) = 2"
| "bson_rank BOther = 3"

fun str_le :: "string \<Rightarrow> string \<Rightarrow> bool" where
  "str_le [] _ = True"
| "str_le (x # xs) [] = False"
| "str_le (x # xs) (y # ys) =
     ((of_char x :: nat) < of_char y \<or> (x = y \<and> str_le xs ys))"

fun num_le :: "jsnum \<Rightarrow> jsnum \<Rightarrow> bool" where
  "num_le NaN _ = True"
| "num_le (Num a) NaN = False"
| "num_le (Num a) (Num b) = (a \<le> b)"

fun bson_le :: "bson \<Rightarrow> bson \<Rightarrow> bool" where
  "bson_le (BNum a) (BNum b) = num_le a b"
| "bson_le (BStr s) (BStr t) = str_le s t"
| "bson_le a b = (bson_rank a \<le> bson_rank b)"

definition of_opt_str :: "string option \<Rightarrow> bson" where
  "of_opt_str v = (case v of None \<Rightarrow> BNull | Some s \<Rightarrow> BStr s)"

definition of_mixed :: "mixed option \<Rightarrow> bson" where
  "of_mixed v = (case v of None \<Rightarrow> BNull | Some (MStr s) \<Rightarrow> BStr s
                 | Some (MNum n) \<Rightarrow> BNum n | Some MObj \<Rightarrow> BOther)"

text \<open>The value a document has under a field name; a name it does not have is null.\<close>

definition field_of :: "string \<Rightarrow> property \<Rightarrow> bson" where
  "field_of k p =
     (if k = ''createdAt'' then BNum (Num (of_int (createdAt p)))
      else if k = ''price'' then BNum (Num (price p))
      else if k = ''title'' then BStr (title p)
      else if k = ''description'' then of_opt_str (description p)
      else if k = ''city'' then of_opt_str (city p)
      else if k = ''propertyType'' then of_opt_str (propertyType p)
      else if k = ''furnishing'' then of_opt_str (furnishing p)
      else if k = ''possession'' then of_opt_str (possession p)
      else if k = ''status'' then BStr (status p)
      else if k = ''location'' then of_mixed (location p)
      else if k = ''bedrooms'' then of_mixed (bedrooms p)
      else if k = ''area'' then (case area p of None \<Rightarrow> BNull | Some a \<Rightarrow> BNum (Num a))
      else BNull)"

fun insert_by :: "('a \<Rightarrow> 'a \<Rightarrow> bool) \<Rightarrow> 'a \<Rightarrow> 'a list \<Rightarrow> 'a list" where
  "insert_by le x [] = [x]"
| "insert_by le x (y # ys) = (if le x y then x # y # ys else y # insert_by le x ys)"

definition sort_by :: "('a \<Rightarrow> 'a \<Rightarrow> bool) \<Rightarrow> 'a list \<Rightarrow> 'a list" where
  "sort_by le xs = foldr (insert_by le) xs []"

text \<open>\<open>.sort({k: d})\<close>: descending when \<open>d = -1\<close>, ascending otherwise.\<close>

definition sort_docs :: "string \<times> int \<Rightarrow> property list \<Rightarrow> property list" where
  "sort_docs so xs =
     (if snd so = - 1
      then sort_by (\<lambda>a b. bson_le (field_of (fst so) b) (field_of (fst so) a)) xs
      else sort_by (\<lambda>a b. bson_le (field_of (fst so) a) (field_of (fst so) b)) xs)"

text \<open>
  \<open>.skip(k).limit(l)\<close> as the store runs them (\<open>None\<close>: no \<open>.skip\<close> in the
  chain): a negative or \<open>NaN\<close> skip and a \<open>NaN\<close> limit are rejected, limit 0 is no
  limit, and a negative limit counts as its absolute value.
\<close>

definition skip_limit :: "jsnum option \<Rightarrow> jsnum \<Rightarrow> 'a list \<Rightarrow> db_error + 'a list" where
  "skip_limit sk lm xs =
     (case (case sk of None \<Rightarrow> Num 0 | Some k \<Rightarrow> k) of
        NaN \<Rightarrow> Inl MongoError
      | Num k \<Rightarrow>
          if k < 0 then Inl MongoError
          else (case lm of
                  NaN \<Rightarrow> Inl MongoError
                | Num l \<Rightarrow>
                    if l = 0 then Inr (drop (nat \<lfloor>k\<rfloor>) xs)
                    else Inr (take (nat \<lfloor>\<bar>l\<bar>\<rfloor>) (drop (nat \<lfloor>k\<rfloor>) xs))))"

text \<open>\<open>Property.find(query).sort(s).skip(k).limit(l)\<close>; an empty sort key is rejected.\<close>

definition Property_find ::
  "regex_engine \<Rightarrow> filter_obj \<Rightarrow> string \<times> int \<Rightarrow> jsnum option \<Rightarrow> jsnum \<Rightarrow> property list
     \<Rightarrow> db_error + property list" where
  "Property_find rx f so sk lm docs =
     (if fst so = [] then Inl MongoError
      else case cast_filter rx f of
        Some e \<Rightarrow> Inl e
      | None \<Rightarrow> skip_limit sk lm (sort_docs so (filter (matches rx f) docs)))"

definition Property_countDocuments ::
  "regex_engine \<Rightarrow> filter_obj \<Rightarrow> property list \<Rightarrow> db_error + nat" where
  "Property_countDocuments rx f docs =
     (case cast_filter rx f of
        Some e \<Rightarrow> Inl e
      | None \<Rightarrow> Inr (length (filter (matches rx f) docs)))"

section \<open>The property listing: \<open>getProperties\<close>\<close>

record query_string =
  q_search :: "string option"
  q_location :: "string option"
  q_propertyType :: "string option"
  q_minPrice :: "string option"
  q_maxPrice :: "string option"
  q_bedrooms :: "string option"
  q_furnishing :: "string option"
  q_possession :: "string option"
  q_amenities :: "qval option"
  q_minArea :: "string option"
  q_maxArea :: "string option"
  q_page :: "string option"
  q_limit :: "string option"
  q_sort :: "string option"
  q_order :: "string option"

definition when_truthy :: "string option \<Rightarrow> (string \<Rightarrow> 'a) \<Rightarrow> 'a option" where
  "when_truthy v g = (case v of None \<Rightarrow> None | Some s \<Rightarrow> if s = [] then None else Some (g s))"

definition amenitiesArray :: "qval \<Rightarrow> string list" where
  "amenitiesArray a = (case a of QArr xs \<Rightarrow> xs | QStr s \<Rightarrow> [s])"

text \<open>Lines 24 to 78 of the controller: the filter object built from the query string.\<close>

definition build_query :: "query_string \<Rightarrow> filter_obj" where
  "build_query rq =
     \<lparr> flt_status = ''active'',
       flt_isFeatured = None,
       flt_or = when_truthy (q_search rq) (\<lambda>s. s),
       flt_city = when_truthy (q_location rq) (\<lambda>s. s),
       flt_propertyType = when_truthy (q_propertyType rq) (\<lambda>s. s),
       flt_price_gte = when_truthy (q_minPrice rq) (\<lambda>s. fl_mul (parseFloat s) (Fin 10000000)),
       flt_price_lte = when_truthy (q_maxPrice rq) (\<lambda>s. fl_mul (parseFloat s) (Fin 10000000)),
       flt_bedrooms_gte = when_truthy (q_bedrooms rq) parseInt,
       flt_furnishing = when_truthy (q_furnishing rq) (\<lambda>s. s),
       flt_possession = when_truthy (q_possession rq) (\<lambda>s. s),
       flt_area_gte = when_truthy (q_minArea rq) parseInt,
       flt_area_lte = when_truthy (q_maxArea rq) parseInt,
       flt_amenities_in = (if qtruthy (q_amenities rq)
                           then map_option amenitiesArray (q_amenities rq) else None) \<rparr>"

record listing =
  count :: nat
  total :: nat
  totalPages :: "int option"
  currentPage :: jsnum
  data :: "property list"

definition sortObj :: "query_string \<Rightarrow> string \<times> int" where
  "sortObj rq =
     (case q_sort rq of None \<Rightarrow> ''createdAt'' | Some s \<Rightarrow> s,
      if (case q_order rq of None \<Rightarrow> ''desc'' | Some s \<Rightarrow> s) = ''desc'' then - 1 else 1)"

definition pageOf :: "query_string \<Rightarrow> jsnum" where
  "pageOf rq = (case q_page rq of None \<Rightarrow> Num 1 | Some s \<Rightarrow> parseInt s)"

definition limitOf :: "query_string \<Rightarrow> jsnum" where
  "limitOf rq = (case q_limit rq of None \<Rightarrow> Num 12 | Some s \<Rightarrow> parseInt s)"

definition skipOf :: "query_string \<Rightarrow> jsnum" where
  "skipOf rq = js_mul (js_sub (pageOf rq) (Num 1)) (limitOf rq)"

definition ceilDiv :: "nat \<Rightarrow> jsnum \<Rightarrow> int option" where
  "ceilDiv t per = (case per of NaN \<Rightarrow> None
                    | Num l \<Rightarrow> if l = 0 then None else Some \<lceil>of_nat t / l\<rceil>)"

definition getProperties :: "regex_engine \<Rightarrow> property list \<Rightarrow> query_string \<Rightarrow> listing reply" where
  "getProperties rx docs rq =
     (let query = build_query rq in
      case Property_find rx query (sortObj rq) (Some (skipOf rq)) (limitOf rq) docs of
        Inl e \<Rightarrow> Fail 500 ''Error fetching properties''
      | Inr props \<Rightarrow>
          (case Property_countDocuments rx query docs of
             Inl e \<Rightarrow> Fail 500 ''Error fetching properties''
           | Inr n \<Rightarrow>
               Done 200 \<lparr> count = length props, total = n,
                          totalPages = ceilDiv n (limitOf rq),
                          currentPage = pageOf rq, data = props \<rparr>))"

text \<open>
  The pagination helper of the utilities module: the page is clamped to at least 1 and
  the page size to the range 1 to 50. \<open>Math.max\<close> and \<open>Math.min\<close> give \<open>NaN\<close> when
  an argument is \<open>NaN\<close>.
\<close>

definition js_max :: "jsnum \<Rightarrow> jsnum \<Rightarrow> jsnum" where
  "js_max a b = (case a of NaN \<Rightarrow> NaN | Num x \<Rightarrow> (case b of NaN \<Rightarrow> NaN | Num y \<Rightarrow> Num (max x y)))"

definition js_min :: "jsnum \<Rightarrow> jsnum \<Rightarrow> jsnum" where
  "js_min a b = (case a of NaN \<Rightarrow> NaN | Num x \<Rightarrow> (case b of NaN \<Rightarrow> NaN | Num y \<Rightarrow> Num (min x y)))"

record pagination =
  pg_currentPage :: jsnum
  pg_perPage :: jsnum
  pg_skip :: jsnum

definition getPagination :: "string option \<Rightarrow> string option \<Rightarrow> pagination" where
  "getPagination page limit =
     (let currentPage = js_max (Num 1) (case page of None \<Rightarrow> Num 1 | Some s \<Rightarrow> parseInt s);
          perPage = js_min (Num 50) (js_max (Num 1) (case limit of None \<Rightarrow> Num 10 | Some s \<Rightarrow> parseInt s))
      in \<lparr> pg_currentPage = currentPage, pg_perPage = perPage,
           pg_skip = js_mul (js_sub currentPage (Num 1)) perPage \<rparr>)"

section \<open>Featured properties\<close>

record featured =
  f_count :: nat
  f_data :: "property list"

definition featured_query :: filter_obj where
  "featured_query =
     \<lparr> flt_status = ''active'', flt_isFeatured = Some True, flt_or = None, flt_city = None,
       flt_propertyType = None, flt_price_gte = None, flt_price_lte = None,
       flt_bedrooms_gte = None, flt_furnishing = None, flt_possession = None,
       flt_area_gte = None, flt_area_lte = None, flt_amenities_in = None \<rparr>"

definition getFeaturedProperties :: "regex_engine \<Rightarrow> property list \<Rightarrow> featured reply" where
  "getFeaturedProperties rx docs =
     (case Property_find rx featured_query (''createdAt'', - 1) None (Num 8) docs of
        Inl e \<Rightarrow> Fail 500 ''Error fetching featured properties''
      | Inr props \<Rightarrow> Done 200 \<lparr> f_count = length props, f_data = props \<rparr>)"

section \<open>Updating and deleting a property\<close>

text \<open>
  \<open>req.params.id\<close> is \<open>None\<close> when the text is not an ObjectId (the lookup then fails
  with a cast error) and \<open>Some i\<close> otherwise.
\<close>

definition Property_findById :: "oid option \<Rightarrow> property list \<Rightarrow> db_error + property option" where
  "Property_findById i docs =
     (case i of None \<Rightarrow> Inl CastError | Some k \<Rightarrow> Inr (find (\<lambda>p. pid p = k) docs))"

text \<open>
  The part of an update body the model follows. With \<open>runValidators\<close> an empty title
  fails validation and a \<open>NaN\<close> price fails the cast; \<open>upd_owner = Some None\<close> is
  \<open>owner: null\<close>.
\<close>

record property_patch =
  upd_title :: "string option"
  upd_description :: "string option"
  upd_price :: "jsnum option"
  upd_status :: "string option"
  upd_owner :: "owner_ref option option"
  upd_isFeatured :: "bool option"

definition apply_patch :: "property_patch \<Rightarrow> property \<Rightarrow> db_error + property" where
  "apply_patch b p =
     (if upd_price b = Some NaN then Inl CastError
      else if upd_title b = Some [] then Inl ValidationError
      else Inr (p \<lparr> title := (case upd_title b of None \<Rightarrow> title p | Some t \<Rightarrow> t),
                    description := (case upd_description b of None \<Rightarrow> description p | Some d \<Rightarrow> Some d),
                    price := (case upd_price b of Some (Num x) \<Rightarrow> x | _ \<Rightarrow> price p),
                    status := (case upd_status b of None \<Rightarrow> status p | Some t \<Rightarrow> t),
                    owner := (case upd_owner b of None \<Rightarrow> owner p | Some ow \<Rightarrow> ow),
                    isFeatured := (case upd_isFeatured b of None \<Rightarrow> isFeatured p | Some f \<Rightarrow> Some f) \<rparr>))"

fun replace_doc :: "oid \<Rightarrow> property \<Rightarrow> property list \<Rightarrow> property list" where
  "replace_doc k q [] = []"
| "replace_doc k q (p # ps) = (if pid p = k then q # ps else p # replace_doc k q ps)"

definition Property_findByIdAndUpdate ::
  "oid option \<Rightarrow> property_patch \<Rightarrow> property list \<Rightarrow> db_error + (property option \<times> property list)" where
  "Property_findByIdAndUpdate i b docs =
     (case i of
        None \<Rightarrow> Inl CastError
      | Some k \<Rightarrow>
          (case find (\<lambda>p. pid p = k) docs of
             None \<Rightarrow> Inr (None, docs)
           | Some p \<Rightarrow>
               (case apply_patch b p of
                  Inl e \<Rightarrow> Inl e
                | Inr q \<Rightarrow> Inr (Some q, replace_doc k q docs))))"

fun delete_doc :: "oid \<Rightarrow> property list \<Rightarrow> property list" where
  "delete_doc k [] = []"
| "delete_doc k (p # ps) = (if pid p = k then ps else p # delete_doc k ps)"

definition Property_findByIdAndDelete :: "oid option \<Rightarrow> property list \<Rightarrow> db_error + property list" where
  "Property_findByIdAndDelete i docs =
     (case i of None \<Rightarrow> Inl CastError | Some k \<Rightarrow> Inr (delete_doc k docs))"

text \<open>
  \<open>property.owner.toString() !== req.user._id.toString()\<close>: an ObjectId prints as its
  hexadecimal text, an embedded object as \<open>[object Object]\<close>, which is no user's id.
  Without an owner the call of \<open>toString\<close> throws.
\<close>

fun owner_differs :: "owner_ref \<Rightarrow> oid \<Rightarrow> bool" where
  "owner_differs (OwnerId i) u = (i \<noteq> u)"
| "owner_differs OwnerObj u = True"

definition update_catch :: "db_error \<Rightarrow> 'a reply" where
  "update_catch e =
     (if e = ValidationError then Fail 400 ''messages.join''
      else if e = CastError then Fail 400 ''Invalid property ID''
      else Fail 500 ''Error updating property'')"

definition updateProperty ::
  "store \<Rightarrow> user \<Rightarrow> oid option \<Rightarrow> property_patch \<Rightarrow> property option reply \<times> store" where
  "updateProperty s u i body =
     (case Property_findById i (properties s) of
        Inl e \<Rightarrow> (update_catch e, s)
      | Inr None \<Rightarrow> (Fail 404 ''Property not found'', s)
      | Inr (Some p) \<Rightarrow>
          (case owner p of
             None \<Rightarrow> (update_catch TypeError, s)
           | Some ow \<Rightarrow>
               if owner_differs ow (uid u) \<and> role u \<noteq> ''admin''
               then (Fail 403 ''Not authorized to update this property'', s)
               else (case Property_findByIdAndUpdate i body (properties s) of
                       Inl e \<Rightarrow> (update_catch e, s)
                     | Inr r \<Rightarrow> (Done 200 (fst r), s \<lparr> properties := snd r \<rparr>))))"

definition delete_catch :: "db_error \<Rightarrow> 'a reply" where
  "delete_catch e =
     (if e = CastError then Fail 400 ''Invalid property ID''
      else Fail 500 ''Error deleting property'')"

definition deleteProperty :: "store \<Rightarrow> user \<Rightarrow> oid option \<Rightarrow> unit reply \<times> store" where
  "deleteProperty s u i =
     (case Property_findById i (properties s) of
        Inl e \<Rightarrow> (delete_catch e, s)
      | Inr None \<Rightarrow> (Fail 404 ''Property not found'', s)
      | Inr (Some p) \<Rightarrow>
          (case owner p of
             None \<Rightarrow> (delete_catch TypeError, s)
           | Some ow \<Rightarrow>
               if owner_differs ow (uid u) \<and> role u \<noteq> ''admin''
               then (Fail 403 ''Not authorized to delete this property'', s)
               else (case Property_findByIdAndDelete i (properties s) of
                       Inl e \<Rightarrow> (delete_catch e, s)
                     | Inr docs \<Rightarrow> (Done 200 (), s \<lparr> properties := docs \<rparr>))))"

section \<open>Favorites\<close>

text \<open>A query on \<open>property\<close> with a text that is no ObjectId fails with a cast error.\<close>

definition Favorite_findOne :: "oid \<Rightarrow> oid option \<Rightarrow> favorite list \<Rightarrow> db_error + favorite option" where
  "Favorite_findOne u i favs =
     (case i of None \<Rightarrow> Inl CastError
      | Some k \<Rightarrow> Inr (find (\<lambda>f. fav_user f = u \<and> fav_property f = k) favs))"

text \<open>
  \<open>Favorite.create\<close>: notes longer than 500 characters fail validation, and the unique
  index on (user, property) rejects a second document for the same pair.
\<close>

definition Favorite_create :: "favorite \<Rightarrow> favorite list \<Rightarrow> db_error + favorite list" where
  "Favorite_create f favs =
     (if (case fav_notes f of None \<Rightarrow> False | Some n \<Rightarrow> 500 < length n) then Inl ValidationError
      else if list_ex (\<lambda>g. fav_user g = fav_user f \<and> fav_property g = fav_property f) favs
      then Inl DuplicateKey
      else Inr (favs @ [f]))"

definition add_catch :: "db_error \<Rightarrow> 'a reply" where
  "add_catch e =
     (if e = DuplicateKey then Fail 400 ''Property already in favorites''
      else Fail 500 ''Error adding to favorites'')"

definition addFavorite ::
  "store \<Rightarrow> user \<Rightarrow> oid option \<Rightarrow> string option \<Rightarrow> int \<Rightarrow> favorite reply \<times> store" where
  "addFavorite s u propertyId note now =
     (case Property_findById propertyId (properties s) of
        Inl e \<Rightarrow> (add_catch e, s)
      | Inr None \<Rightarrow> (Fail 404 ''Property not found'', s)
      | Inr (Some p) \<Rightarrow>
          (case Favorite_findOne (uid u) propertyId (favorites s) of
             Inl e \<Rightarrow> (add_catch e, s)
           | Inr (Some existingFavorite) \<Rightarrow> (Fail 400 ''Property already in favorites'', s)
           | Inr None \<Rightarrow>
               (let fv = \<lparr> fav_user = uid u, fav_property = pid p, fav_notes = note, addedAt = now \<rparr>
                in case Favorite_create fv (favorites s) of
                     Inl e \<Rightarrow> (add_catch e, s)
                   | Inr favs \<Rightarrow> (Done 201 fv, s \<lparr> favorites := favs \<rparr>))))"

definition Favorite_findOneAndDelete ::
  "oid \<Rightarrow> oid option \<Rightarrow> favorite list \<Rightarrow> db_error + (favorite option \<times> favorite list)" where
  "Favorite_findOneAndDelete u i favs =
     (case Favorite_findOne u i favs of
        Inl e \<Rightarrow> Inl e
      | Inr None \<Rightarrow> Inr (None, favs)
      | Inr (Some f) \<Rightarrow> Inr (Some f, remove1 f favs))"

definition removeFavorite :: "store \<Rightarrow> user \<Rightarrow> oid option \<Rightarrow> unit reply \<times> store" where
  "removeFavorite s u propertyId =
     (case Favorite_findOneAndDelete (uid u) propertyId (favorites s) of
        Inl e \<Rightarrow> (Fail 500 ''Error removing from favorites'', s)
      | Inr r \<Rightarrow>
          (case fst r of
             None \<Rightarrow> (Fail 404 ''Favorite not found'', s)
           | Some favorite \<Rightarrow> (Done 200 (), s \<lparr> favorites := snd r \<rparr>)))"

definition Favorite_deleteMany :: "oid \<Rightarrow> favorite list \<Rightarrow> nat \<times> favorite list" where
  "Favorite_deleteMany u favs =
     (length (filter (\<lambda>f. fav_user f = u) favs), filter (\<lambda>f. fav_user f \<noteq> u) favs)"

text \<open>The body of the answer is \<open>result.deletedCount\<close>, which the message prints.\<close>

definition clearAllFavorites :: "store \<Rightarrow> user \<Rightarrow> nat reply \<times> store" where
  "clearAllFavorites s u =
     (let result = Favorite_deleteMany (uid u) (favorites s)
      in (Done 200 (fst result), s \<lparr> favorites := snd result \<rparr>))"

text \<open>At most one favorite for each pair of user and property.\<close>

definition fav_key :: "favorite \<Rightarrow> oid \<times> oid" where
  "fav_key f = (fav_user f, fav_property f)"

definition unique_favorites :: "store \<Rightarrow> bool" where
  "unique_favorites s = distinct (map fav_key (favorites s))"

section \<open>Users: registration, password login, Google login\<close>

definition toLower :: "char \<Rightarrow> char" where
  "toLower c = (case map_of (zip ''ABCDEFGHIJKLMNOPQRSTUVWXYZ'' ''abcdefghijklmnopqrstuvwxyz'') c of
                  None \<Rightarrow> c | Some l \<Rightarrow> l)"

definition trim :: "string \<Rightarrow> string" where
  "trim s = rev (dropWhile isWhiteSpace (rev (dropWhile isWhiteSpace s)))"

text \<open>
  The schema's setters on \<open>email\<close> (\<open>lowercase\<close>, \<open>trim\<close>), run on stored values and
  on query values. Lower-casing is modelled for ASCII letters.
\<close>

definition email_setter :: "string \<Rightarrow> string" where
  "email_setter e = trim (map toLower e)"

definition User_findOne_email :: "string \<Rightarrow> user list \<Rightarrow> user option" where
  "User_findOne_email e us = find (\<lambda>u. email u = email_setter e) us"

definition User_findOne_googleId :: "string \<Rightarrow> user list \<Rightarrow> user option" where
  "User_findOne_googleId g us = find (\<lambda>u. googleId u = Some g) us"

definition fresh_oid :: "user list \<Rightarrow> oid" where
  "fresh_oid us = Suc (foldr max (map uid us) 0)"

text \<open>
  \<open>User.create\<close>: the setters run, \<open>name\<close> and \<open>email\<close> are required, \<open>email\<close> is unique,
  \<open>googleId\<close> is unique where present; \<open>role\<close> defaults to \<open>user\<close>, \<open>avatar\<close> to the
  empty string and \<open>lastLogin\<close> to the time of creation.
\<close>

record new_user =
  nu_googleId :: "string option"
  nu_name :: string
  nu_email :: string
  nu_password :: "string option"
  nu_avatar :: "string option"
  nu_provider :: string
  nu_lastLogin :: "int option"

definition User_create :: "new_user \<Rightarrow> int \<Rightarrow> user list \<Rightarrow> db_error + (user \<times> user list)" where
  "User_create d now us =
     (if trim (nu_name d) = [] \<or> email_setter (nu_email d) = [] then Inl ValidationError
      else if list_ex (\<lambda>u. email u = email_setter (nu_email d)) us then Inl DuplicateKey
      else if (case nu_googleId d of None \<Rightarrow> False
               | Some g \<Rightarrow> list_ex (\<lambda>u. googleId u = Some g) us) then Inl DuplicateKey
      else (let u = \<lparr> uid = fresh_oid us, googleId = nu_googleId d, name = trim (nu_name d),
                       email = email_setter (nu_email d), password = nu_password d,
                       avatar = (case nu_avatar d of None \<Rightarrow> Some [] | Some a \<Rightarrow> Some a),
                       provider = nu_provider d, role = ''user'',
                       lastLogin = (case nu_lastLogin d of None \<Rightarrow> now | Some t \<Rightarrow> t) \<rparr>
            in Inr (u, us @ [u])))"









text \<open>
  The Google profile as the verify callback reads it. A profile without an \<open>emails\<close>
  property has the empty list here: reading the first email throws for both.
  \<open>pf_photos\<close> is \<open>None\<close> for a profile without a \<open>photos\<close> property. A missing
  display name is the empty string: the schema refuses both.
\<close>

record profile =
  pf_id :: string
  pf_displayName :: string
  pf_emails :: "string list"
  pf_photos :: "string list option"

text \<open>
  \<open>profile.photos[0]?.value\<close>: it throws for a profile without a \<open>photos\<close> property
  (\<open>None\<close>), and it is undefined (\<open>Some None\<close>) for an empty list of photos.
\<close>

definition first_photo :: "profile \<Rightarrow> string option option" where
  "first_photo pf = (case pf_photos pf of None \<Rightarrow> None | Some [] \<Rightarrow> Some None
                     | Some (x # xs) \<Rightarrow> Some (Some x))"

text \<open>\<open>user.save()\<close>: the stored document with the user's id is replaced.\<close>

fun save_user :: "user \<Rightarrow> user list \<Rightarrow> user list" where
  "save_user v [] = []"
| "save_user v (u # us) = (if uid u = uid v then v # us else u # save_user v us)"

datatype verify_error = NoEmail | NoPhotos | NotConnected | DbError db_error

text \<open>
  The verify callback the server registers with the Google strategy: \<open>done(error, null)\<close>
  is \<open>Inl\<close>, \<open>done(null, user)\<close> is \<open>Inr\<close>. The first statement reads
  \<open>profile.emails[0].value\<close>, which throws when the profile has no email. Each branch
  reads the photo before it saves or creates.
\<close>

definition googleVerify :: "bool \<Rightarrow> store \<Rightarrow> profile \<Rightarrow> int \<Rightarrow> (verify_error + user) \<times> store" where
  "googleVerify loaded s pf now =
     (case pf_emails pf of
        [] \<Rightarrow> (Inl NoEmail, s)
      | e # es \<Rightarrow>
          if \<not> loaded then (Inl NotConnected, s)
          else (case User_findOne_googleId (pf_id pf) (users s) of
                  Some u \<Rightarrow>
                    (case first_photo pf of
                       None \<Rightarrow> (Inl NoPhotos, s)
                     | Some a \<Rightarrow>
                         (let v = u \<lparr> lastLogin := now, avatar := a \<rparr>
                          in (Inr v, s \<lparr> users := save_user v (users s) \<rparr>)))
                | None \<Rightarrow>
                    (case User_findOne_email e (users s) of
                       Some existingUser \<Rightarrow>
                         (case first_photo pf of
                            None \<Rightarrow> (Inl NoPhotos, s)
                          | Some a \<Rightarrow>
                              (let v = existingUser \<lparr> googleId := Some (pf_id pf), avatar := a,
                                                       provider := ''google'' \<rparr>
                               in (Inr v, s \<lparr> users := save_user v (users s) \<rparr>)))
                     | None \<Rightarrow>
                         (case first_photo pf of
                            None \<Rightarrow> (Inl NoPhotos, s)
                          | Some a \<Rightarrow>
                              (case User_create \<lparr> nu_googleId = Some (pf_id pf),
                                                  nu_name = pf_displayName pf, nu_email = e,
                                                  nu_password = None, nu_avatar = a,
                                                  nu_provider = ''google'', nu_lastLogin = Some now \<rparr>
                                      now (users s) of
                                 Inl err \<Rightarrow> (Inl (DbError err), s)
                               | Inr r \<Rightarrow> (Inr (fst r), s \<lparr> users := snd r \<rparr>))))))"

text \<open>
  The callback of the separate passport configuration module. It follows the same
  order, but returns a user found by subject id as stored, and does not change the
  provider tag when it links a subject id to an account found by email.
\<close>

definition passportVerify :: "store \<Rightarrow> profile \<Rightarrow> int \<Rightarrow> (verify_error + user) \<times> store" where
  "passportVerify s pf now =
     (case User_findOne_googleId (pf_id pf) (users s) of
        Some u \<Rightarrow> (Inr u, s)
      | None \<Rightarrow>
          (case pf_emails pf of
             [] \<Rightarrow> (Inl NoEmail, s)
           | e # es \<Rightarrow>
               (case User_findOne_email e (users s) of
                  Some existingUser \<Rightarrow>
                    (case first_photo pf of
                       None \<Rightarrow> (Inl NoPhotos, s)
                     | Some a \<Rightarrow>
                         (let v = existingUser \<lparr> googleId := Some (pf_id pf), avatar := a \<rparr>
                          in (Inr v, s \<lparr> users := save_user v (users s) \<rparr>)))
                | None \<Rightarrow>
                    (case first_photo pf of
                       None \<Rightarrow> (Inl NoPhotos, s)
                     | Some a \<Rightarrow>
                         (case User_create \<lparr> nu_googleId = Some (pf_id pf),
                                             nu_name = pf_displayName pf, nu_email = e,
                                             nu_password = None, nu_avatar = a,
                                             nu_provider = ''google'', nu_lastLogin = None \<rparr>
                                 now (users s) of
                            Inl err \<Rightarrow> (Inl (DbError err), s)
                          | Inr r \<Rightarrow> (Inr (fst r), s \<lparr> users := snd r \<rparr>))))))"

section \<open>Contact messages\<close>

definition required_str :: "string option \<Rightarrow> bool" where
  "required_str v = (case v of None \<Rightarrow> False | Some t \<Rightarrow> t \<noteq> [])"

definition Contact_create :: "contact \<Rightarrow> contact list \<Rightarrow> db_error + contact list" where
  "Contact_create c cs =
     (if required_str (c_name c) \<and> required_str (c_email c) \<and> required_str (c_message c)
      then Inr (cs @ [c]) else Inl ValidationError)"

text \<open>
  \<open>POST /api/contact\<close>: every error of \<open>Contact.create\<close> is answered with status 500;
  without the model nothing is stored and the answer is still a success.
\<close>

definition postContact :: "bool \<Rightarrow> store \<Rightarrow> contact \<Rightarrow> unit reply \<times> store" where
  "postContact loaded s body =
     (if loaded
      then (case Contact_create body (contacts s) of
              Inl e \<Rightarrow> (Fail 500 ''e.message'', s)
            | Inr cs \<Rightarrow> (Done 200 (), s \<lparr> contacts := cs \<rparr>))
      else (Done 200 (), s))"

section \<open>Sample data\<close>

text \<open>
  A regular-expression engine for patterns without metacharacters (letters, digits and
  white space): such a pattern matches a text, ignoring case, when the text contains it.
  Every other pattern is left to the store's engine and is rejected here.
\<close>

fun starts_with :: "string \<Rightarrow> string \<Rightarrow> bool" where
  "starts_with [] ys = True"
| "starts_with (x # xs) [] = False"
| "starts_with (x # xs) (y # ys) = (x = y \<and> starts_with xs ys)"

fun contains :: "string \<Rightarrow> string \<Rightarrow> bool" where
  "contains pat [] = (pat = [])"
| "contains pat (y # ys) = (starts_with pat (y # ys) \<or> contains pat ys)"

definition plain_char :: "char \<Rightarrow> bool" where
  "plain_char c = (isDigit c \<or> isWhiteSpace c \<or> toLower c \<in> set ''abcdefghijklmnopqrstuvwxyz'')"

definition literal_rx :: regex_engine where
  "literal_rx pat =
     (if list_all plain_char pat
      then Some (\<lambda>txt. contains (map toLower pat) (map toLower txt)) else None)"

definition no_query :: query_string where
  "no_query = \<lparr> q_search = None, q_location = None, q_propertyType = None, q_minPrice = None,
     q_maxPrice = None, q_bedrooms = None, q_furnishing = None, q_possession = None,
     q_amenities = None, q_minArea = None, q_maxArea = None, q_page = None, q_limit = None,
     q_sort = None, q_order = None \<rparr>"

definition sample_flat :: property where
  "sample_flat = \<lparr> pid = 1, title = ''Sea View Flat'',
     description = Some ''Bright flat near the beach'',
     location = Some MObj, city = Some ''Mumbai'', propertyType = Some ''apartment'',
     price = 15000000, bedrooms = Some (MNum (Num 3)), furnishing = Some ''furnished'',
     possession = Some ''ready'', area = Some 1200, amenities = [''gym'', ''pool''],
     owner = Some (OwnerId 7), status = ''active'', isFeatured = Some True, createdAt = 100 \<rparr>"

definition sample_villa :: property where
  "sample_villa = \<lparr> pid = 2, title = ''Garden Villa'', description = None,
     location = Some (MStr ''Pune outskirts''), city = Some ''Pune'', propertyType = Some ''villa'',
     price = 42000000, bedrooms = Some (MStr ''4''), furnishing = None,
     possession = Some ''2026'', area = Some 3000, amenities = [''garden''],
     owner = Some (OwnerId 8), status = ''active'', isFeatured = Some True, createdAt = 200 \<rparr>"

definition sample_sold :: property where
  "sample_sold = \<lparr> pid = 3, title = ''Old Flat'', description = Some ''sold'',
     location = None, city = Some ''Mumbai'', propertyType = Some ''apartment'',
     price = 12000000, bedrooms = Some (MNum (Num 2)), furnishing = Some ''furnished'',
     possession = Some ''ready'', area = Some 800, amenities = [''gym''],
     owner = None, status = ''sold'', isFeatured = Some True, createdAt = 300 \<rparr>"

definition sample_docs :: "property list" where
  "sample_docs = [sample_flat, sample_villa, sample_sold]"




definition alice :: user where
  "alice = \<lparr> uid = 7, googleId = None, name = ''Alice'', email = ''alice@x.com'',
     password = Some ''$2b$12$secret'', avatar = Some [], provider = ''manual'',
     role = ''user'', lastLogin = 10 \<rparr>"

definition bob :: user where
  "bob = \<lparr> uid = 8, googleId = Some ''g-8'', name = ''Bob'', email = ''bob@x.com'',
     password = None, avatar = Some ''old.png'', provider = ''google'',
     role = ''user'', lastLogin = 20 \<rparr>"

definition root_admin :: user where
  "root_admin = \<lparr> uid = 9, googleId = None, name = ''Root'', email = ''root@x.com'',
     password = None, avatar = Some [], provider = ''manual'',
     role = ''admin'', lastLogin = 30 \<rparr>"

definition fav_alice_flat :: favorite where
  "fav_alice_flat = \<lparr> fav_user = 7, fav_property = 1, fav_notes = None, addedAt = 50 \<rparr>"

definition fav_bob_flat :: favorite where
  "fav_bob_flat = \<lparr> fav_user = 8, fav_property = 1, fav_notes = Some ''nice'', addedAt = 60 \<rparr>"

definition fav_alice_villa :: favorite where
  "fav_alice_villa = \<lparr> fav_user = 7, fav_property = 2, fav_notes = None, addedAt = 70 \<rparr>"

definition sample_store :: store where
  "sample_store = \<lparr> users = [alice, bob, root_admin], properties = sample_docs,
     favorites = [fav_alice_flat, fav_bob_flat, fav_alice_villa], contacts = [] \<rparr>"






definition no_patch :: property_patch where
  "no_patch = \<lparr> upd_title = None, upd_description = None, upd_price = None,
     upd_status = None, upd_owner = None, upd_isFeatured = None \<rparr>"





definition bob_profile :: profile where
  "bob_profile = \<lparr> pf_id = ''g-8'', pf_displayName = ''Bob'', pf_emails = [''bob@x.com''],
     pf_photos = Some [''new.png''] \<rparr>"

definition alice_profile :: profile where
  "alice_profile = \<lparr> pf_id = ''g-7'', pf_displayName = ''Alice A'', pf_emails = [''Alice@x.com''],
     pf_photos = Some [''a.png''] \<rparr>"





definition hello_contact :: contact where
  "hello_contact = \<lparr> c_name = Some ''A'', c_email = Some ''a@x.com'', c_phone = None,
     c_subject = None, c_message = Some ''hi'', c_propertyInterest = None \<rparr>"

section \<open>Facts about the store\<close>

lemma set_insert_by: "set (insert_by le x ys) = insert x (set ys)"
  by (induction ys) auto

lemma set_sort_by: "set (sort_by le xs) = set xs"
  by (induction xs) (simp_all add: sort_by_def set_insert_by)

lemma length_insert_by: "length (insert_by le x ys) = Suc (length ys)"
  by (induction ys) auto

lemma length_sort_by: "length (sort_by le xs) = length xs"
  by (induction xs) (simp_all add: sort_by_def length_insert_by)

lemma set_sort_docs: "set (sort_docs so xs) = set xs"
  by (simp add: sort_docs_def set_sort_by)



section \<open>The listing endpoint\<close>










lemma build_query_simps:
  "flt_status (build_query rq) = ''active''"
  "flt_isFeatured (build_query rq) = None"
  "flt_or (build_query rq) = when_truthy (q_search rq) (\<lambda>s. s)"
  "flt_city (build_query rq) = when_truthy (q_location rq) (\<lambda>s. s)"
  "flt_propertyType (build_query rq) = when_truthy (q_propertyType rq) (\<lambda>s. s)"
  "flt_price_gte (build_query rq) = when_truthy (q_minPrice rq) (\<lambda>s. fl_mul (parseFloat s) (Fin 10000000))"
  "flt_price_lte (build_query rq) = when_truthy (q_maxPrice rq) (\<lambda>s. fl_mul (parseFloat s) (Fin 10000000))"
  "flt_bedrooms_gte (build_query rq) = when_truthy (q_bedrooms rq) parseInt"
  "flt_furnishing (build_query rq) = when_truthy (q_furnishing rq) (\<lambda>s. s)"
  "flt_possession (build_query rq) = when_truthy (q_possession rq) (\<lambda>s. s)"
  "flt_area_gte (build_query rq) = when_truthy (q_minArea rq) parseInt"
  "flt_area_lte (build_query rq) = when_truthy (q_maxArea rq) parseInt"
  "flt_amenities_in (build_query rq) =
     (if qtruthy (q_amenities rq) then map_option amenitiesArray (q_amenities rq) else None)"
  by (simp_all add: build_query_def)





subsection \<open>Price bounds\<close>






lemma price_bound_not_a_number:
  assumes "(q_minPrice rq = Some s \<or> q_maxPrice rq = Some s)" "s \<noteq> []" "parseFloat s = FNaN"
  shows "getProperties rx docs rq = Fail 500 ''Error fetching properties''"
proof -
  from assms have "flt_price_gte (build_query rq) = Some FNaN \<or> flt_price_lte (build_query rq) = Some FNaN"
    by (auto simp: build_query_simps when_truthy_def)
  then have "cast_filter rx (build_query rq) = Some CastError"
    by (auto simp: cast_filter_def)
  then show ?thesis
    by (simp add: getProperties_def Property_find_def Let_def)
qed

text \<open>
  The products the handler computes for three bounds: \<open>0.07\<close> gives the double just
  above 700000, \<open>0.57\<close> the double just below 5700000, and \<open>Infinity\<close> stays infinite
  and passes the cast, so that a page (an empty one) is returned.
\<close>

lemma price_bound_doubles:
  "fl_mul (parseFloat ''0.07'') (Fin 10000000) = Fin (700000 + 1 / 2 ^ 33)"
  "fl_mul (parseFloat ''0.57'') (Fin 10000000) = Fin (5700000 - 1 / 2 ^ 30)"
  "fl_mul (parseFloat ''Infinity'') (Fin 10000000) = PInf"
  "getProperties literal_rx sample_docs (no_query \<lparr> q_minPrice := Some ''Infinity'' \<rparr>)
     = Done 200 \<lparr> count = 0, total = 0, totalPages = Some 0, currentPage = Num 1, data = [] \<rparr>"
  by code_simp+




subsection \<open>Pagination\<close>

lemma getProperties_page_zero:
  "getProperties rx docs (no_query \<lparr> q_page := Some ''0'' \<rparr>) = Fail 500 ''Error fetching properties''"
proof -
  have sk: "skipOf (no_query \<lparr> q_page := Some ''0'' \<rparr>) = Num (- 12)" by code_simp
  have lm: "limitOf (no_query \<lparr> q_page := Some ''0'' \<rparr>) = Num 12" by code_simp
  show ?thesis
    by (simp add: getProperties_def Property_find_def skip_limit_def sk lm Let_def
          split: option.splits if_splits)
qed

lemma getPagination_page_zero:
  "getPagination (Some ''0'') (Some ''12'')
     = \<lparr> pg_currentPage = Num 1, pg_perPage = Num 12, pg_skip = Num 0 \<rparr>"
  by code_simp

text \<open>
  Claim C3, at the request \<open>page=0\<close>. The claim has the page clamped to 1, as the
  helper \<open>getPagination\<close> does (its skip for page 0 is 0). The controller does not
  clamp: it computes the skip \<open>(0 - 1) * 12 = -12\<close>, the store rejects a negative
  skip, and the answer is status 500. At \<open>limit=0\<close> the store applies no limit, so
  the page holds both active sample properties although the limit is 0.
\<close>

theorem getProperties_no_page_clamp:
  "getProperties literal_rx sample_docs (no_query \<lparr> q_page := Some ''0'' \<rparr>)
     = Fail 500 ''Error fetching properties''
   \<and> skipOf (no_query \<lparr> q_page := Some ''0'' \<rparr>) = Num (- 12)
   \<and> pg_skip (getPagination (Some ''0'') (Some ''12'')) = Num 0
   \<and> getProperties literal_rx sample_docs (no_query \<lparr> q_limit := Some ''0'' \<rparr>)
     = Done 200 \<lparr> count = 2, total = 2, totalPages = None, currentPage = Num 1,
                  data = [sample_villa, sample_flat] \<rparr>"
  by code_simp

text \<open>
  From page 1 on and with a positive limit the pages are consecutive slices of the
  filtered, sorted result, each at most \<open>limit\<close> long, and the first \<open>n\<close> pages
  put together are its first \<open>n * limit\<close> documents.
\<close>

lemma concat_pages:
  "0 < L \<Longrightarrow> concat (map (\<lambda>P. take L (drop (P * L) xs)) [0..<n]) = take (n * L) xs"
proof (induction n)
  case 0
  then show ?case by simp
next
  case (Suc n)
  have "take (n * L) xs @ take L (drop (n * L) xs) = take (n * L + L) xs"
    by (simp add: take_add)
  with Suc show ?case by (simp add: add.commute)
qed

lemma getProperties_page:
  assumes pg: "pageOf rq = Num (of_nat (Suc P))" and lm: "limitOf rq = Num (of_nat L)" and L: "0 < L"
    and c: "cast_filter rx (build_query rq) = None" and so: "fst (sortObj rq) \<noteq> []"
  shows "\<exists>body. getProperties rx docs rq = Done 200 body
           \<and> data body = take L (drop (P * L) (sort_docs (sortObj rq) (filter (matches rx (build_query rq)) docs)))
           \<and> count body \<le> L"
proof -
  have sk: "skipOf rq = Num (of_nat (P * L))"
    by (simp add: skipOf_def pg lm js_mul_def js_sub_def)
  have "skip_limit (Some (skipOf rq)) (limitOf rq) xs = Inr (take L (drop (P * L) xs))" for xs :: "property list"
    using L unfolding skip_limit_def sk lm by (simp del: of_nat_mult)
  then show ?thesis
    by (simp add: getProperties_def Property_find_def Property_countDocuments_def c so Let_def)
qed

section \<open>Contact messages\<close>

lemma postContact_stores:
  assumes "required_str (c_name body)" "required_str (c_email body)" "required_str (c_message body)"
  shows "postContact True s body = (Done 200 (), s \<lparr> contacts := contacts s @ [body] \<rparr>)"
  using assms by (simp add: postContact_def Contact_create_def)

lemma postContact_missing_message:
  "postContact True s (body \<lparr> c_message := None \<rparr>) = (Fail 500 ''e.message'', s)"
  by (simp add: postContact_def Contact_create_def required_str_def)

text \<open>
  Claim C4, at a message with name, email and text and at the same message without its
  text. The complete message is stored and answered with a success. The message
  without text fails the schema's validation, and the handler answers every error of
  \<open>Contact.create\<close> with status 500, where the claim has 400; nothing is stored.
\<close>

theorem postContact_validation_is_500:
  "postContact True sample_store hello_contact
     = (Done 200 (), sample_store \<lparr> contacts := [hello_contact] \<rparr>)
   \<and> postContact True sample_store (hello_contact \<lparr> c_message := None \<rparr>)
     = (Fail 500 ''e.message'', sample_store)
   \<and> http (fst (postContact True sample_store (hello_contact \<lparr> c_message := None \<rparr>))) = 500"
  by (simp add: postContact_def Contact_create_def required_str_def hello_contact_def sample_store_def)

section \<open>Updating and deleting\<close>

text \<open>
  An update or a deletion succeeds only for the property's owner or an administrator,
  and where the property has an owner every other requester is answered with 403 and
  the store is unchanged.
\<close>

lemma updateProperty_Done:
  assumes "updateProperty s u i body = (Done c b, s')"
  shows "\<exists>k p. i = Some k \<and> find (\<lambda>p. pid p = k) (properties s) = Some p
           \<and> (owner p = Some (OwnerId (uid u)) \<or> role u = ''admin'')"
proof -
  from assms obtain k where k: "i = Some k"
    by (cases i) (auto simp: updateProperty_def Property_findById_def update_catch_def)
  from assms k obtain p where p: "find (\<lambda>p. pid p = k) (properties s) = Some p"
    by (cases "find (\<lambda>p. pid p = k) (properties s)")
       (auto simp: updateProperty_def Property_findById_def)
  from assms k p obtain ow where ow: "owner p = Some ow"
    by (cases "owner p") (auto simp: updateProperty_def Property_findById_def update_catch_def)
  from assms k p ow have "\<not> owner_differs ow (uid u) \<or> role u = ''admin''"
    by (auto simp: updateProperty_def Property_findById_def split: if_splits)
  then have "ow = OwnerId (uid u) \<or> role u = ''admin''"
    by (cases ow) auto
  with k p ow show ?thesis by blast
qed

lemma deleteProperty_Done:
  assumes "deleteProperty s u i = (Done c b, s')"
  shows "\<exists>k p. i = Some k \<and> find (\<lambda>p. pid p = k) (properties s) = Some p
           \<and> (owner p = Some (OwnerId (uid u)) \<or> role u = ''admin'')"
proof -
  from assms obtain k where k: "i = Some k"
    by (cases i) (auto simp: deleteProperty_def Property_findById_def delete_catch_def)
  from assms k obtain p where p: "find (\<lambda>p. pid p = k) (properties s) = Some p"
    by (cases "find (\<lambda>p. pid p = k) (properties s)")
       (auto simp: deleteProperty_def Property_findById_def)
  from assms k p obtain ow where ow: "owner p = Some ow"
    by (cases "owner p") (auto simp: deleteProperty_def Property_findById_def delete_catch_def)
  from assms k p ow have "\<not> owner_differs ow (uid u) \<or> role u = ''admin''"
    by (auto simp: deleteProperty_def Property_findById_def split: if_splits)
  then have "ow = OwnerId (uid u) \<or> role u = ''admin''"
    by (cases ow) auto
  with k p ow show ?thesis by blast
qed

lemma forbidden_when_owned_by_another:
  assumes "find (\<lambda>p. pid p = k) (properties s) = Some p" and "owner p = Some ow"
    and "ow \<noteq> OwnerId (uid u)" and "role u \<noteq> ''admin''"
  shows "updateProperty s u (Some k) body = (Fail 403 ''Not authorized to update this property'', s)"
    and "deleteProperty s u (Some k) = (Fail 403 ''Not authorized to delete this property'', s)"
proof -
  from assms(3) have "owner_differs ow (uid u)" by (cases ow) auto
  with assms show
    "updateProperty s u (Some k) body = (Fail 403 ''Not authorized to update this property'', s)"
    "deleteProperty s u (Some k) = (Fail 403 ''Not authorized to delete this property'', s)"
    by (simp_all add: updateProperty_def deleteProperty_def Property_findById_def)
qed

lemma no_owner_is_500:
  assumes "find (\<lambda>p. pid p = k) (properties s) = Some p" and "owner p = None"
  shows "updateProperty s u (Some k) body = (Fail 500 ''Error updating property'', s)"
    and "deleteProperty s u (Some k) = (Fail 500 ''Error deleting property'', s)"
  using assms
  by (simp_all add: updateProperty_def deleteProperty_def Property_findById_def
        update_catch_def delete_catch_def)

text \<open>
  Claim C5, at a stored property that has no owner (the sample property 3) and a
  requester who is not an administrator. The claim has such a requester answered with
  403. Both handlers call \<open>toString\<close> on the missing owner, which throws, and answer
  with status 500; an administrator gets the same answer. The store is unchanged.
\<close>

theorem update_delete_without_owner:
  "find (\<lambda>p. pid p = 3) (properties sample_store) = Some sample_sold
   \<and> owner sample_sold = None
   \<and> role alice \<noteq> ''admin''
   \<and> updateProperty sample_store alice (Some 3) no_patch
        = (Fail 500 ''Error updating property'', sample_store)
   \<and> deleteProperty sample_store alice (Some 3)
        = (Fail 500 ''Error deleting property'', sample_store)
   \<and> deleteProperty sample_store root_admin (Some 3)
        = (Fail 500 ''Error deleting property'', sample_store)"
  by code_simp

section \<open>Favorites\<close>

lemma find_None_no_key:
  assumes "find (\<lambda>f. fav_user f = u \<and> fav_property f = k) favs = None"
  shows "(u, k) \<notin> set (map fav_key favs)"
  using assms by (auto simp: find_None_iff fav_key_def)

lemma distinct_map_remove1:
  "distinct (map g xs) \<Longrightarrow> distinct (map g (remove1 x xs))"
proof (induction xs)
  case Nil
  then show ?case by simp
next
  case (Cons y ys)
  have "set (remove1 x ys) \<subseteq> set ys" by (rule set_remove1_subset)
  with Cons show ?case by auto
qed

lemma addFavorite_Done:
  assumes "addFavorite s u i note now = (Done c f, s')"
  shows "\<exists>k p. i = Some k \<and> find (\<lambda>p. pid p = k) (properties s) = Some p
           \<and> find (\<lambda>f. fav_user f = uid u \<and> fav_property f = k) (favorites s) = None
           \<and> f = \<lparr> fav_user = uid u, fav_property = k, fav_notes = note, addedAt = now \<rparr>
           \<and> s' = s \<lparr> favorites := favorites s @ [f] \<rparr> \<and> c = 201"
proof (cases i)
  case None
  with assms show ?thesis
    by (simp add: addFavorite_def Property_findById_def add_catch_def)
next
  case (Some k)
  show ?thesis
  proof (cases "find (\<lambda>p. pid p = k) (properties s)")
    case None
    with assms Some show ?thesis
      by (simp add: addFavorite_def Property_findById_def)
  next
    case p: (Some p)
    then have k: "pid p = k" by (auto dest: find_Some_iff [THEN iffD1])
    show ?thesis
    proof (cases "find (\<lambda>f. fav_user f = uid u \<and> fav_property f = k) (favorites s)")
      case (Some g)
      with assms \<open>i = Some k\<close> p show ?thesis
        by (simp add: addFavorite_def Property_findById_def Favorite_findOne_def)
    next
      case None
      let ?fv = "\<lparr> fav_user = uid u, fav_property = k, fav_notes = note, addedAt = now \<rparr>"
      from None have nx: "\<not> list_ex (\<lambda>g. fav_user g = uid u \<and> fav_property g = k) (favorites s)"
        by (auto simp: find_None_iff list_ex_iff)
      show ?thesis
      proof (cases "Favorite_create ?fv (favorites s)")
        case (Inl e)
        with assms \<open>i = Some k\<close> p None k show ?thesis
          by (simp add: addFavorite_def Property_findById_def Favorite_findOne_def add_catch_def
                split: if_splits)
      next
        case (Inr favs)
        then have "favs = favorites s @ [?fv]"
          by (simp add: Favorite_create_def nx split: if_splits)
        with Inr assms \<open>i = Some k\<close> p None k show ?thesis
          by (auto simp: addFavorite_def Property_findById_def Favorite_findOne_def Let_def)
      qed
    qed
  qed
qed

lemma addFavorite_Fail:
  assumes "addFavorite s u i note now = (Fail c m, s')"
  shows "s' = s"
proof (cases "Property_findById i (properties s)")
  case (Inl e)
  with assms show ?thesis by (simp add: addFavorite_def)
next
  case (Inr po)
  show ?thesis
  proof (cases po)
    case None
    with Inr assms show ?thesis by (simp add: addFavorite_def)
  next
    case (Some p)
    show ?thesis
    proof (cases "Favorite_findOne (uid u) i (favorites s)")
      case (Inl e)
      with Inr Some assms show ?thesis by (simp add: addFavorite_def)
    next
      case fo: (Inr fo)
      show ?thesis
      proof (cases fo)
        case (Some g)
        with Inr \<open>po = Some p\<close> fo assms show ?thesis by (simp add: addFavorite_def)
      next
        case None
        with Inr \<open>po = Some p\<close> fo assms show ?thesis
          by (cases "Favorite_create \<lparr> fav_user = uid u, fav_property = pid p,
                        fav_notes = note, addedAt = now \<rparr> (favorites s)")
             (simp_all add: addFavorite_def Let_def)
      qed
    qed
  qed
qed

lemma addFavorite_unique:
  assumes "unique_favorites s"
  shows "unique_favorites (snd (addFavorite s u i note now))"
proof (cases "addFavorite s u i note now")
  case (Pair r s')
  show ?thesis
  proof (cases r)
    case (Fail c m)
    with Pair have "s' = s" by (auto dest: addFavorite_Fail)
    with Pair assms show ?thesis by simp
  next
    case (Done c f)
    with Pair have "addFavorite s u i note now = (Done c f, s')" by simp
    from addFavorite_Done [OF this] obtain k where
      n: "find (\<lambda>f. fav_user f = uid u \<and> fav_property f = k) (favorites s) = None"
      and f: "f = \<lparr> fav_user = uid u, fav_property = k, fav_notes = note, addedAt = now \<rparr>"
      and s': "s' = s \<lparr> favorites := favorites s @ [f] \<rparr>"
      by blast
    from f have "fav_key f = (uid u, k)" by (simp add: fav_key_def)
    with find_None_no_key [OF n] assms s' Pair show ?thesis
      by (simp add: unique_favorites_def)
  qed
qed

lemma removeFavorite_favorites:
  "favorites (snd (removeFavorite s u i)) = favorites s
   \<or> (\<exists>f. favorites (snd (removeFavorite s u i)) = remove1 f (favorites s))"
proof (cases "Favorite_findOne (uid u) i (favorites s)")
  case (Inl e)
  then show ?thesis by (simp add: removeFavorite_def Favorite_findOneAndDelete_def)
next
  case (Inr fo)
  then show ?thesis
    by (cases fo) (auto simp: removeFavorite_def Favorite_findOneAndDelete_def)
qed

lemma removeFavorite_unique:
  assumes "unique_favorites s"
  shows "unique_favorites (snd (removeFavorite s u i))"
  using assms removeFavorite_favorites [of s u i]
  by (auto simp: unique_favorites_def distinct_map_remove1)

lemma clearAllFavorites_unique:
  assumes "unique_favorites s"
  shows "unique_favorites (snd (clearAllFavorites s u))"
  using assms
  by (simp add: clearAllFavorites_def Favorite_deleteMany_def unique_favorites_def
        Let_def distinct_map_filter)

lemma addFavorite_existing:
  assumes p: "find (\<lambda>p. pid p = k) (properties s) = Some p"
    and f: "f \<in> set (favorites s)" "fav_user f = uid u" "fav_property f = k"
  shows "addFavorite s u (Some k) note now = (Fail 400 ''Property already in favorites'', s)"
proof -
  from f have "find (\<lambda>f. fav_user f = uid u \<and> fav_property f = k) (favorites s) \<noteq> None"
    by (auto simp: find_None_iff)
  then obtain g where "find (\<lambda>f. fav_user f = uid u \<and> fav_property f = k) (favorites s) = Some g"
    by blast
  with p show ?thesis
    by (simp add: addFavorite_def Property_findById_def Favorite_findOne_def)
qed

lemma addFavorite_twice:
  assumes "addFavorite s u (Some k) n1 t1 = (Done c f, s1)"
  shows "addFavorite s1 u (Some k) n2 t2 = (Fail 400 ''Property already in favorites'', s1)"
proof -
  from addFavorite_Done [OF assms] obtain p where
      p: "find (\<lambda>p. pid p = k) (properties s) = Some p"
      and f: "f = \<lparr> fav_user = uid u, fav_property = k, fav_notes = n1, addedAt = t1 \<rparr>"
      and s1: "s1 = s \<lparr> favorites := favorites s @ [f] \<rparr>"
    by blast
  have "find (\<lambda>p. pid p = k) (properties s1) = Some p" using p s1 by simp
  moreover have "f \<in> set (favorites s1)" using s1 by simp
  moreover have "fav_user f = uid u" "fav_property f = k" using f by simp_all
  ultimately show ?thesis by (rule addFavorite_existing)
qed

text \<open>
  Claim C6. Where no two favorites share their user and property, the same holds after
  an add, a remove and a clear-all request, whatever their outcome. If the property
  exists and the user already has a favorite for it, an add request is answered with
  status 400 and the store is unchanged; in particular, after an add request that
  succeeded, a second add request by the same user for the same property is answered
  with 400 and creates nothing.
\<close>

theorem favorites_stay_unique:
  "(unique_favorites s \<longrightarrow>
        unique_favorites (snd (addFavorite s u i note now))
      \<and> unique_favorites (snd (removeFavorite s u i))
      \<and> unique_favorites (snd (clearAllFavorites s u)))
   \<and> (\<forall>k p f. find (\<lambda>p. pid p = k) (properties s) = Some p
         \<and> f \<in> set (favorites s) \<and> fav_user f = uid u \<and> fav_property f = k \<longrightarrow>
         addFavorite s u (Some k) note now = (Fail 400 ''Property already in favorites'', s))
   \<and> (\<forall>k c f s1 n2 t2. addFavorite s u (Some k) note now = (Done c f, s1) \<longrightarrow>
         addFavorite s1 u (Some k) n2 t2 = (Fail 400 ''Property already in favorites'', s1))"
proof (intro conjI allI impI)
  assume "unique_favorites s"
  then show "unique_favorites (snd (addFavorite s u i note now))"
    "unique_favorites (snd (removeFavorite s u i))"
    "unique_favorites (snd (clearAllFavorites s u))"
    by (rule addFavorite_unique removeFavorite_unique clearAllFavorites_unique)+
next
  fix k p f
  assume "find (\<lambda>p. pid p = k) (properties s) = Some p
         \<and> f \<in> set (favorites s) \<and> fav_user f = uid u \<and> fav_property f = k"
  then show "addFavorite s u (Some k) note now = (Fail 400 ''Property already in favorites'', s)"
    using addFavorite_existing [of k s p f u] by blast
next
  fix k c f s1 n2 t2
  assume "addFavorite s u (Some k) note now = (Done c f, s1)"
  then show "addFavorite s1 u (Some k) n2 t2 = (Fail 400 ''Property already in favorites'', s1)"
    by (rule addFavorite_twice)
qed

theorem favorites_stay_unique_witness:
  "unique_favorites sample_store
   \<and> unique_favorites (snd (addFavorite sample_store bob (Some 2) None 80))
   \<and> unique_favorites (snd (removeFavorite sample_store bob (Some 2)))
   \<and> unique_favorites (snd (clearAllFavorites sample_store bob))
   \<and> addFavorite sample_store bob (Some 1) None 80
        = (Fail 400 ''Property already in favorites'', sample_store)
   \<and> (\<exists>f s1. addFavorite sample_store bob (Some 2) None 80 = (Done 201 f, s1)
         \<and> addFavorite s1 bob (Some 2) (Some ''again'') 90
              = (Fail 400 ''Property already in favorites'', s1))"
proof -
  note t = favorites_stay_unique [of sample_store bob "Some 2" None 80]
  have u: "unique_favorites sample_store" by code_simp
  have e: "find (\<lambda>p. pid p = 1) (properties sample_store) = Some sample_flat
         \<and> fav_bob_flat \<in> set (favorites sample_store) \<and> fav_user fav_bob_flat = uid bob
         \<and> fav_property fav_bob_flat = 1"
    by code_simp
  have a: "addFavorite sample_store bob (Some 2) None 80
     = (Done 201 \<lparr> fav_user = 8, fav_property = 2, fav_notes = None, addedAt = 80 \<rparr>,
        sample_store \<lparr> favorites := favorites sample_store
           @ [\<lparr> fav_user = 8, fav_property = 2, fav_notes = None, addedAt = 80 \<rparr>] \<rparr>)"
    by code_simp
  from t u have 1: "unique_favorites (snd (addFavorite sample_store bob (Some 2) None 80))
      \<and> unique_favorites (snd (removeFavorite sample_store bob (Some 2)))
      \<and> unique_favorites (snd (clearAllFavorites sample_store bob))"
    by blast
  from t e have 2: "addFavorite sample_store bob (Some 1) None 80
        = (Fail 400 ''Property already in favorites'', sample_store)"
    by blast
  from t a have 3: "\<exists>f s1. addFavorite sample_store bob (Some 2) None 80 = (Done 201 f, s1)
         \<and> addFavorite s1 bob (Some 2) (Some ''again'') 90
              = (Fail 400 ''Property already in favorites'', s1)"
    by blast
  from u 1 2 3 show ?thesis by blast
qed

text \<open>
  Claim C9. The clear-all request of a user answers with the number of favorites whose
  user is the requester, and afterwards the favorites are exactly the earlier ones of
  other users, in their order: every other user's favorites are as before, and the
  users, properties and contact messages are unchanged.
\<close>

theorem clearAllFavorites_frame:
  "fst (clearAllFavorites s u)
     = Done 200 (length (filter (\<lambda>f. fav_user f = uid u) (favorites s)))
   \<and> favorites (snd (clearAllFavorites s u)) = filter (\<lambda>f. fav_user f \<noteq> uid u) (favorites s)
   \<and> (\<forall>v. v \<noteq> uid u \<longrightarrow>
         filter (\<lambda>f. fav_user f = v) (favorites (snd (clearAllFavorites s u)))
           = filter (\<lambda>f. fav_user f = v) (favorites s))
   \<and> properties (snd (clearAllFavorites s u)) = properties s
   \<and> users (snd (clearAllFavorites s u)) = users s
   \<and> contacts (snd (clearAllFavorites s u)) = contacts s"
proof -
  have "filter (\<lambda>f. fav_user f = v) (filter (\<lambda>f. fav_user f \<noteq> uid u) xs)
          = filter (\<lambda>f. fav_user f = v) xs" if "v \<noteq> uid u" for v and xs :: "favorite list"
    using that by (induction xs) auto
  then show ?thesis
    by (simp add: clearAllFavorites_def Favorite_deleteMany_def Let_def)
qed

theorem clearAllFavorites_frame_witness:
  "clearAllFavorites sample_store alice
     = (Done 200 2, sample_store \<lparr> favorites := [fav_bob_flat] \<rparr>)
   \<and> filter (\<lambda>f. fav_user f = uid bob) (favorites (snd (clearAllFavorites sample_store alice)))
       = filter (\<lambda>f. fav_user f = uid bob) (favorites sample_store)
   \<and> properties (snd (clearAllFavorites sample_store alice)) = properties sample_store
   \<and> users (snd (clearAllFavorites sample_store alice)) = users sample_store"
proof -
  note t = clearAllFavorites_frame [of sample_store alice]
  have n: "uid bob \<noteq> uid alice" by code_simp
  have c: "clearAllFavorites sample_store alice
     = (Done 200 2, sample_store \<lparr> favorites := [fav_bob_flat] \<rparr>)"
    by code_simp
  from t n have f: "filter (\<lambda>f. fav_user f = uid bob) (favorites (snd (clearAllFavorites sample_store alice)))
       = filter (\<lambda>f. fav_user f = uid bob) (favorites sample_store)"
    by blast
  from t have g: "properties (snd (clearAllFavorites sample_store alice)) = properties sample_store"
    "users (snd (clearAllFavorites sample_store alice)) = users sample_store"
    by simp_all
  from c f g show ?thesis by (intro conjI)
qed



section \<open>Featured properties\<close>

lemma sorted_insert_by:
  assumes tot: "\<And>a b. le a b \<or> le b a" and tr: "\<And>a b c. le a b \<Longrightarrow> le b c \<Longrightarrow> le a c"
  shows "sorted_wrt le ys \<Longrightarrow> sorted_wrt le (insert_by le x ys)"
proof (induction ys)
  case Nil
  then show ?case by simp
next
  case (Cons y ys)
  show ?case
  proof (cases "le x y")
    case True
    with Cons.prems tr show ?thesis by auto
  next
    case False
    with tot have "le y x" by blast
    with Cons False show ?thesis by (auto simp: set_insert_by)
  qed
qed

lemma sorted_sort_by:
  assumes tot: "\<And>a b. le a b \<or> le b a" and tr: "\<And>a b c. le a b \<Longrightarrow> le b c \<Longrightarrow> le a c"
  shows "sorted_wrt le (sort_by le xs)"
proof (induction xs)
  case Nil
  then show ?case by (simp add: sort_by_def)
next
  case (Cons x xs)
  have "sort_by le (x # xs) = insert_by le x (sort_by le xs)" by (simp add: sort_by_def)
  with Cons sorted_insert_by [of le, OF tot tr] show ?case by simp
qed

lemma sort_docs_createdAt_desc:
  "sorted_wrt (\<lambda>a b. createdAt b \<le> createdAt a) (sort_docs (''createdAt'', - 1) xs)"
proof -
  have e: "(\<lambda>a b. bson_le (field_of ''createdAt'' b) (field_of ''createdAt'' a))
            = (\<lambda>a b. createdAt b \<le> createdAt a)"
    by (intro ext) (simp add: field_of_def)
  have d: "sort_docs (''createdAt'', - 1) xs = sort_by (\<lambda>a b. createdAt b \<le> createdAt a) xs"
    by (simp add: sort_docs_def e)
  have "sorted_wrt (\<lambda>a b. createdAt b \<le> createdAt a)
          (sort_by (\<lambda>a b. createdAt b \<le> createdAt a) xs)"
  proof (rule sorted_sort_by)
    show "createdAt b \<le> createdAt a \<or> createdAt a \<le> createdAt b" for a b :: property
      by linarith
    show "createdAt b \<le> createdAt a \<Longrightarrow> createdAt c \<le> createdAt b
            \<Longrightarrow> createdAt c \<le> createdAt a" for a b c :: property
      by linarith
  qed
  with d show ?thesis by simp
qed

lemma featured_matches:
  "matches rx featured_query p = (status p = ''active'' \<and> isFeatured p = Some True)"
  by (simp add: matches_def featured_query_def on_opt_def)

text \<open>
  Claim C10. The featured-properties endpoint answers with at most 8 properties of the
  collection, each with status \<open>active\<close> and \<open>isFeatured\<close> true, ordered by creation
  time from newest to oldest; the count it reports is the number of properties returned.
\<close>

theorem getFeaturedProperties_result:
  "\<exists>body. getFeaturedProperties rx docs = Done 200 body
     \<and> length (f_data body) \<le> 8
     \<and> f_count body = length (f_data body)
     \<and> (\<forall>p \<in> set (f_data body). p \<in> set docs \<and> status p = ''active'' \<and> isFeatured p = Some True)
     \<and> sorted_wrt (\<lambda>a b. createdAt b \<le> createdAt a) (f_data body)"
proof -
  define full where "full = sort_docs (''createdAt'', - 1) (filter (matches rx featured_query) docs)"
  define body where "body = \<lparr> f_count = length (take 8 full), f_data = take 8 full \<rparr>"
  have fd: "f_data body = take 8 full" and fc: "f_count body = length (take 8 full)"
    by (simp_all add: body_def)
  have c: "cast_filter rx featured_query = None"
    by (simp add: cast_filter_def featured_query_def)
  have sl: "skip_limit None (Num 8) full = Inr (take 8 full)"
    by (simp add: skip_limit_def)
  have g: "getFeaturedProperties rx docs = Done 200 body"
    unfolding getFeaturedProperties_def Property_find_def c body_def
    using sl by (simp add: full_def)
  have l: "length (f_data body) \<le> 8" by (simp add: fd)
  have n: "f_count body = length (f_data body)" by (simp add: fd fc)
  have m: "\<forall>p \<in> set (f_data body). p \<in> set docs \<and> status p = ''active'' \<and> isFeatured p = Some True"
  proof
    fix p assume "p \<in> set (f_data body)"
    then have "p \<in> set full" unfolding fd by (rule in_set_takeD)
    then show "p \<in> set docs \<and> status p = ''active'' \<and> isFeatured p = Some True"
      by (simp add: full_def set_sort_docs featured_matches)
  qed
  have s: "sorted_wrt (\<lambda>a b. createdAt b \<le> createdAt a) (f_data body)"
    unfolding fd full_def by (rule sorted_wrt_take) (rule sort_docs_createdAt_desc)
  from g l n m s show ?thesis by blast
qed

theorem getFeaturedProperties_result_witness:
  "getFeaturedProperties literal_rx sample_docs
     = Done 200 \<lparr> f_count = 2, f_data = [sample_villa, sample_flat] \<rparr>
   \<and> status sample_villa = ''active'' \<and> isFeatured sample_villa = Some True
   \<and> status sample_flat = ''active'' \<and> isFeatured sample_flat = Some True
   \<and> createdAt sample_flat \<le> createdAt sample_villa"
proof -
  from getFeaturedProperties_result [of literal_rx sample_docs]
  obtain body where b: "getFeaturedProperties literal_rx sample_docs = Done 200 body"
    and m: "\<forall>p \<in> set (f_data body). p \<in> set sample_docs \<and> status p = ''active'' \<and> isFeatured p = Some True"
    and s: "sorted_wrt (\<lambda>a b. createdAt b \<le> createdAt a) (f_data body)"
    by blast
  have e: "getFeaturedProperties literal_rx sample_docs
     = Done 200 \<lparr> f_count = 2, f_data = [sample_villa, sample_flat] \<rparr>"
    by code_simp
  from b e have "body = \<lparr> f_count = 2, f_data = [sample_villa, sample_flat] \<rparr>" by simp
  then have d: "f_data body = [sample_villa, sample_flat]" by simp
  from m s show ?thesis unfolding d using e by simp
qed

section \<open>Registration and password login\<close>









section \<open>Google login\<close>














text \<open>
  The callback of the separate passport configuration module, on the same profiles: a
  user found by subject id is returned as stored (no new \<open>lastLogin\<close>, no new avatar),
  and an account linked by email keeps its provider tag.
\<close>

lemma passportVerify_keeps_stored_user:
  "passportVerify sample_store bob_profile 500 = (Inr bob, sample_store)
   \<and> fst (googleVerify True sample_store bob_profile 500)
        = Inr (bob \<lparr> lastLogin := 500, avatar := Some ''new.png'' \<rparr>)
   \<and> fst (passportVerify sample_store alice_profile 500)
        = Inr (alice \<lparr> googleId := Some ''g-7'', avatar := Some ''a.png'' \<rparr>)
   \<and> fst (googleVerify True sample_store alice_profile 500)
        = Inr (alice \<lparr> googleId := Some ''g-7'', avatar := Some ''a.png'', provider := ''google'' \<rparr>)"
  by code_simp


end
